theory Spec2Isabelle
  imports Main "HOL-Library.Multiset"
begin

section \<open>JavaScript values, documents and queries\<close>

text \<open>
  Request bodies, job payloads and stored documents hold JSON scalars and store
  identifiers. \<open>JUndefined\<close> is what reading a field that is not there yields.
  Object-valued and array-valued fields are not modelled.
\<close>

datatype jsval =
    JUndefined
  | JNull
  | JBool bool
  | JNum int
  | JStr string
  | JOid string

text \<open>A thrown JavaScript \<open>Error\<close>, with its message.\<close>

datatype error = Error string

text \<open>The operand of \<open>!x\<close> and of \<open>if (x)\<close>: JavaScript truthiness.\<close>

fun truthy :: "jsval \<Rightarrow> bool" where
  "truthy JUndefined = False"
| "truthy JNull = False"
| "truthy (JBool b) = b"
| "truthy (JNum n) = (n \<noteq> 0)"
| "truthy (JStr s) = (s \<noteq> [])"
| "truthy (JOid h) = True"

definition digit_char :: "nat \<Rightarrow> char" where
  "digit_char n = ''0123456789'' ! (n mod 10)"

function string_of_nat :: "nat \<Rightarrow> string" where
  "string_of_nat n =
     (if n < 10 then [digit_char n]
      else string_of_nat (n div 10) @ [digit_char (n mod 10)])"
  by pat_completeness auto
termination
  by (relation "measure (\<lambda>n. n)") auto

declare string_of_nat.simps [simp del]

text \<open>String conversion, as a template literal \<open>`${v}`\<close> performs it.\<close>

fun js_string :: "jsval \<Rightarrow> string" where
  "js_string JUndefined = ''undefined''"
| "js_string JNull = ''null''"
| "js_string (JBool b) = (if b then ''true'' else ''false'')"
| "js_string (JNum n) =
     (if n < 0 then ''-'' @ string_of_nat (nat (- n)) else string_of_nat (nat n))"
| "js_string (JStr s) = s"
| "js_string (JOid h) = h"

text \<open>
  The method call \<open>v.toString()\<close>: a \<open>TypeError\<close> on \<open>undefined\<close> and \<open>null\<close>
  (here \<open>None\<close>), the string conversion otherwise.
\<close>

fun toString :: "jsval \<Rightarrow> string option" where
  "toString JUndefined = None"
| "toString JNull = None"
| "toString v = Some (js_string v)"

text \<open>
  A document (a plain object) is a list of fields in insertion order; a query is a
  list of field constraints, all of which a matching document satisfies by equality.
\<close>

type_synonym doc = "(string \<times> jsval) list"

definition field :: "doc \<Rightarrow> string \<Rightarrow> jsval" where
  "field d k = (case map_of d k of None \<Rightarrow> JUndefined | Some v \<Rightarrow> v)"

definition matches :: "doc \<Rightarrow> doc \<Rightarrow> bool" where
  "matches q d = list_all (\<lambda>(k, v). map_of d k = Some v) q"

text \<open>\<open>collection.findOne(query)\<close>: the first matching document, or \<open>null\<close>.\<close>

definition findOne :: "doc \<Rightarrow> doc list \<Rightarrow> doc option" where
  "findOne q coll = find (matches q) coll"

text \<open>\<open>String.prototype.split\<close> with a one-character separator.\<close>

fun split_on :: "char \<Rightarrow> string \<Rightarrow> string list" where
  "split_on c [] = [[]]"
| "split_on c (x # xs) =
     (if x = c then [] # split_on c xs
      else (case split_on c xs of
              [] \<Rightarrow> [[x]]
            | y # ys \<Rightarrow> (x # y) # ys))"

text \<open>An array read \<open>xs[i]\<close>: \<open>undefined\<close> (here \<open>None\<close>) out of range.\<close>

definition js_index :: "'a list \<Rightarrow> nat \<Rightarrow> 'a option" where
  "js_index xs i = (if i < length xs then Some (xs ! i) else None)"

text \<open>
  The libraries the code calls and whose results it only passes on:
  \<open>sha1\<close> (the digest of a value), base64 decoding of a string to UTF-8 text, and the
  document store's identifier constructor \<open>ObjectId\<close>, which throws (here \<open>None\<close>) on
  an argument that has not the shape of an identifier and returns the identifier in
  its textual form otherwise.
\<close>

record env =
  sha1 :: "jsval \<Rightarrow> string"
  base64_decode :: "string \<Rightarrow> string"
  ObjectId :: "jsval \<Rightarrow> string option"

section \<open>The session store client (utils/redis.js)\<close>

text \<open>
  The server holds, for each key, a value and its time to live in seconds. The client
  sends commands over one connection, which the server executes in the order they were
  sent. \<open>pending\<close> are the commands the client has taken and the server has not yet
  executed. The client is made by \<open>redis.createClient()\<close> with no options: while the
  connection is down it keeps the commands in its offline queue, and they are sent, in
  order, once the connection is up again.
\<close>

datatype command = SETEX string nat string | DEL string

record redis =
  kv :: "string \<rightharpoonup> string \<times> nat"
  pending :: "command list"
  connected :: bool

text \<open>
  The server executing what is pending: every command in turn on a connection that is
  up; on one that is down nothing is executed and the commands stay pending.
  \<open>SETEX\<close> with a time to live of zero is an error and stores nothing.
\<close>

fun exec :: "command \<Rightarrow> (string \<rightharpoonup> string \<times> nat) \<Rightarrow> (string \<rightharpoonup> string \<times> nat)" where
  "exec (SETEX k d v) m = (if d = 0 then m else m(k \<mapsto> (v, d)))"
| "exec (DEL k) m = m(k := None)"

definition server_run :: "redis \<Rightarrow> redis" where
  "server_run r =
     (if connected r then r\<lparr>kv := fold exec (pending r) (kv r), pending := []\<rparr>
      else r)"

text \<open>
  \<open>get\<close> awaits the promisified \<open>GET\<close>: the reply comes after every command sent
  before it has been executed. While the connection is down the promise stays pending,
  here \<open>None\<close>; \<open>Some\<close> is the promise settled, with the value of the key or \<open>null\<close>.
\<close>

definition RedisClient_get ::
  "string \<Rightarrow> redis \<Rightarrow> (error + string option) option \<times> redis" where
  "RedisClient_get key r =
     (let r' = server_run r
      in if connected r then (Some (Inr (map_option fst (kv r' key))), r')
         else (None, r'))"

text \<open>
  \<open>set\<close> and \<open>del\<close> hand their command to the client with no callback and return:
  the promise of the \<open>async\<close> method resolves with \<open>undefined\<close> whatever becomes of
  the command.
\<close>

definition RedisClient_set ::
  "string \<Rightarrow> string \<Rightarrow> nat \<Rightarrow> redis \<Rightarrow> (error + unit) \<times> redis" where
  "RedisClient_set key val duration r =
     (Inr (), r\<lparr>pending := pending r @ [SETEX key duration val]\<rparr>)"

definition RedisClient_del :: "string \<Rightarrow> redis \<Rightarrow> (error + unit) \<times> redis" where
  "RedisClient_del key r = (Inr (), r\<lparr>pending := pending r @ [DEL key]\<rparr>)"

section \<open>Responses\<close>

record response =
  status :: nat
  body :: "doc option"

definition send :: "nat \<Rightarrow> doc \<Rightarrow> response" where
  "send code b = \<lparr>status = code, body = Some b\<rparr>"

definition unauthorized :: response where
  "unauthorized = send 401 [(''error'', JStr ''Unauthorized'')]"

section \<open>AuthController.getConnect\<close>

definition auth_key :: "string \<Rightarrow> string" where
  "auth_key token = ''auth_'' @ token"

text \<open>
  Modelled from the spec: \<open>userUtils.getUser\<close> (utils/user.js), the look-up of a user
  record matching the query exactly, or \<open>null\<close>.
\<close>

definition getUser :: "doc \<Rightarrow> doc list \<Rightarrow> doc option" where
  "getUser query users = findOne query users"

text \<open>
  \<open>hdr\<close> is \<open>request.header('Authorization')\<close> and \<open>uuid\<close> the string the call of
  \<open>uuidv4()\<close> returns. The result is \<open>Inl\<close> when the handler throws and sends nothing.
\<close>

definition getConnect ::
  "env \<Rightarrow> string \<Rightarrow> string option \<Rightarrow> doc list \<Rightarrow> redis \<Rightarrow> (error + response) \<times> redis" where
  "getConnect e uuid hdr users r =
     (let Authorization = (case hdr of None \<Rightarrow> [] | Some h \<Rightarrow> h)
      in (case js_index (split_on CHR '' '' Authorization) 1 of
            None \<Rightarrow> (Inr unauthorized, r)
          | Some credentials \<Rightarrow>
             (if credentials = [] then (Inr unauthorized, r)
              else
               (let decodedCredentials = base64_decode e credentials;
                    parts = split_on CHR '':'' decodedCredentials
                in (case (js_index parts 0, js_index parts 1) of
                      (Some email, Some password) \<Rightarrow>
                       (if email = [] \<or> password = [] then (Inr unauthorized, r)
                        else
                         (let sha1Password = sha1 e (JStr password)
                          in (case getUser [(''email'', JStr email),
                                            (''password'', JStr sha1Password)] users of
                                None \<Rightarrow> (Inr unauthorized, r)
                              | Some user \<Rightarrow>
                                 (let token = uuid;
                                      key = auth_key token;
                                      hoursForExpiration = 24
                                  in (case toString (field user ''_id'') of
                                        None \<Rightarrow> (Inl (Error ''TypeError''), r)
                                      | Some uid \<Rightarrow>
                                         (let r' = snd (RedisClient_set key uid
                                                          (hoursForExpiration * 3600) r)
                                          in (Inr (send 200 [(''token'', JStr token)]), r')))))))
                    | (_, _) \<Rightarrow> (Inr unauthorized, r))))))"

section \<open>UsersController\<close>

text \<open>Assignment to and deletion of a property of a plain object.\<close>

fun obj_set :: "string \<Rightarrow> jsval \<Rightarrow> doc \<Rightarrow> doc" where
  "obj_set k v [] = [(k, v)]"
| "obj_set k v ((k', v') # d) = (if k' = k then (k, v) # d else (k', v') # obj_set k v d)"

definition obj_delete :: "string \<Rightarrow> doc \<Rightarrow> doc" where
  "obj_delete k d = filter (\<lambda>(k', v). k' \<noteq> k) d"

text \<open>The spread \<open>{ ...d }\<close> into an object under construction.\<close>

definition spread :: "doc \<Rightarrow> doc \<Rightarrow> doc" where
  "spread acc d = fold (\<lambda>(k, v). obj_set k v) d acc"

text \<open>
  What the effects of a handler or of a job processor are, in the order they happen:
  console output, calls on the document store, calls of the thumbnail library.
\<close>

datatype event =
    ConsoleLog string
  | ConsoleError string
  | FindOne doc
  | InsertOne doc
  | GetUser doc
  | GetFile doc
  | ImageThumbnail jsval nat

text \<open>
  What \<open>usersCollection.insertOne\<close> does is the store's decision: it throws, or it
  stores the document under a fresh identifier that it returns as \<open>insertedId\<close>.
  The handlers catch no other failure of the store or of the queue; look-ups and
  \<open>userQueue.add\<close> are taken to succeed.
\<close>

datatype insert_outcome = InsertThrows error | Inserted string

record postNew_result =
  reply :: response
  users_after :: "doc list"
  userQueue_after :: "doc list"
  calls :: "event list"

definition postNew ::
  "env \<Rightarrow> insert_outcome \<Rightarrow> doc \<Rightarrow> doc list \<Rightarrow> doc list \<Rightarrow> postNew_result" where
  "postNew e ins request_body users userQueue =
     (let email = field request_body ''email'';
          password = field request_body ''password''
      in if \<not> truthy email
         then \<lparr>reply = send 400 [(''error'', JStr ''Missing email'')],
               users_after = users, userQueue_after = userQueue, calls = []\<rparr>
         else if \<not> truthy password
         then \<lparr>reply = send 400 [(''error'', JStr ''Missing password'')],
               users_after = users, userQueue_after = userQueue, calls = []\<rparr>
         else
           (case findOne [(''email'', email)] users of
              Some emailExists \<Rightarrow>
                \<lparr>reply = send 400 [(''error'', JStr ''Already exist'')],
                 users_after = users, userQueue_after = userQueue,
                 calls = [FindOne [(''email'', email)]]\<rparr>
            | None \<Rightarrow>
               (let sha1Password = sha1 e password;
                    new_user = [(''email'', email), (''password'', JStr sha1Password)]
                in (case ins of
                      InsertThrows err \<Rightarrow>
                        \<lparr>reply = send 500 [(''error'', JStr ''Error creating user.'')],
                         users_after = users, userQueue_after = userQueue @ [[]],
                         calls = [FindOne [(''email'', email)], InsertOne new_user]\<rparr>
                    | Inserted insertedId \<Rightarrow>
                       (let user = [(''id'', JOid insertedId), (''email'', email)]
                        in \<lparr>reply = send 201 user,
                            users_after = users @ [new_user @ [(''_id'', JOid insertedId)]],
                            userQueue_after =
                              userQueue @ [[(''userId'', JStr insertedId)]],
                            calls = [FindOne [(''email'', email)], InsertOne new_user]\<rparr>)))))"

text \<open>
  \<open>userId\<close> is the field of that name of what \<open>userUtils.getUserIdAndKey(request)\<close>
  (utils/user.js) returns. The result is \<open>Inl\<close> when the handler throws and sends
  nothing.
\<close>

definition getMe :: "env \<Rightarrow> jsval \<Rightarrow> doc list \<Rightarrow> error + response" where
  "getMe e userId users =
     (case ObjectId e userId of
        None \<Rightarrow> Inl (Error ''BSONTypeError'')
      | Some oid \<Rightarrow>
         (case getUser [(''_id'', JOid oid)] users of
            None \<Rightarrow> Inr unauthorized
          | Some user \<Rightarrow>
             (let processedUser = spread [(''id'', field user ''_id'')] user;
                  processedUser = obj_delete ''_id'' processedUser;
                  processedUser = obj_delete ''password'' processedUser
              in Inr (send 200 processedUser))))"

section \<open>The job processors (worker.js)\<close>

text \<open>
  Modelled from the spec: \<open>basicUtils.isValidId\<close> (utils/basic.js), whether a value is
  a syntactically valid store identifier: one the store's identifier constructor
  accepts.
\<close>

definition isValidId :: "env \<Rightarrow> jsval \<Rightarrow> bool" where
  "isValidId e v = (ObjectId e v \<noteq> None)"

text \<open>
  Modelled from the spec: \<open>fileUtils.getFile\<close> (utils/file.js), the look-up of a file
  record matching the query, or \<open>null\<close>.
\<close>

definition getFile :: "doc \<Rightarrow> doc list \<Rightarrow> doc option" where
  "getFile query files = findOne query files"

text \<open>
  A run of the \<open>fileQueue\<close> processor on a job: how its promise settles, the effects up
  to that moment, and the callbacks of \<open>widths.forEach\<close> that are then suspended at
  \<open>await imageThumbnail(localPath, options)\<close>, each with its \<open>localPath\<close> and
  \<open>width\<close>. \<open>forEach\<close> calls the \<open>async\<close> callback for each width in turn and ignores
  the promise it returns; each call runs up to its first \<open>await\<close>, that is, sets
  \<open>options.width\<close> and calls \<open>imageThumbnail\<close>.
\<close>

record file_run =
  settled :: "error + unit"
  events :: "event list"
  suspended :: "(jsval \<times> nat) list"

definition failed :: "string \<Rightarrow> event list \<Rightarrow> file_run" where
  "failed msg evs = \<lparr>settled = Inl (Error msg), events = evs, suspended = []\<rparr>"

definition fileQueue_process :: "env \<Rightarrow> doc \<Rightarrow> doc list \<Rightarrow> file_run" where
  "fileQueue_process e job_data files =
     (let fileId = field job_data ''fileId'';
          userId = field job_data ''userId''
      in if \<not> truthy userId then failed ''Missing userId'' [ConsoleLog ''Missing userId'']
         else if \<not> truthy fileId then failed ''Missing fileId'' [ConsoleLog ''Missing fileId'']
         else if \<not> isValidId e fileId \<or> \<not> isValidId e userId then failed ''File not found'' []
         else
           (case (ObjectId e fileId, ObjectId e userId) of
              (Some fid, Some uid) \<Rightarrow>
                (let query = [(''_id'', JOid fid), (''userId'', JOid uid)]
                 in (case getFile query files of
                       None \<Rightarrow> failed ''File not found'' [GetFile query]
                     | Some file \<Rightarrow>
                        (let localPath = field file ''localPath'';
                             widths = [500, 250, 100]
                         in \<lparr>settled = Inr (),
                             events = GetFile query # map (ImageThumbnail localPath) widths,
                             suspended = map (\<lambda>width. (localPath, width)) widths\<rparr>)))
            | (_, _) \<Rightarrow> failed ''BSONTypeError'' []))"

text \<open>
  What resuming a suspended callback does. The outcome of the thumbnail derivation
  and whether the write of a path fails are the environment's decisions.
\<close>

record io =
  imageThumbnail :: "jsval \<Rightarrow> nat \<Rightarrow> error + string"
  writeFile_error :: "string \<Rightarrow> error option"

type_synonym disk = "(string \<rightharpoonup> string) \<times> event list"

fun resume :: "io \<Rightarrow> jsval \<times> nat \<Rightarrow> disk \<Rightarrow> disk" where
  "resume env (localPath, width) (fs, log) =
     (case imageThumbnail env localPath width of
        Inl (Error message) \<Rightarrow> (fs, log @ [ConsoleError message])
      | Inr thumbnail \<Rightarrow>
         (let path = js_string localPath @ ''_'' @ string_of_nat width
          in (case writeFile_error env path of
                Some (Error message) \<Rightarrow> (fs, log @ [ConsoleError message])
              | None \<Rightarrow> (fs(path \<mapsto> thumbnail), log))))"

text \<open>The suspended callbacks resume in the order their derivations finish.\<close>

definition resume_all :: "io \<Rightarrow> (jsval \<times> nat) list \<Rightarrow> disk \<Rightarrow> disk" where
  "resume_all env schedule d = fold (resume env) schedule d"

text \<open>
  The two effects of resuming a callback, each on its own: the artifact it writes, if
  any, and the lines it logs.
\<close>

definition written :: "io \<Rightarrow> jsval \<times> nat \<Rightarrow> (string \<times> string) option" where
  "written env task =
     (case task of (localPath, width) \<Rightarrow>
        (case imageThumbnail env localPath width of
           Inl err \<Rightarrow> None
         | Inr thumbnail \<Rightarrow>
             (case writeFile_error env (js_string localPath @ ''_'' @ string_of_nat width) of
                Some err \<Rightarrow> None
              | None \<Rightarrow> Some (js_string localPath @ ''_'' @ string_of_nat width, thumbnail))))"

definition logged :: "io \<Rightarrow> jsval \<times> nat \<Rightarrow> event list" where
  "logged env task =
     (case task of (localPath, width) \<Rightarrow>
        (case imageThumbnail env localPath width of
           Inl (Error message) \<Rightarrow> [ConsoleError message]
         | Inr thumbnail \<Rightarrow>
             (case writeFile_error env (js_string localPath @ ''_'' @ string_of_nat width) of
                Some (Error message) \<Rightarrow> [ConsoleError message]
              | None \<Rightarrow> [])))"

definition userQueue_process :: "env \<Rightarrow> doc \<Rightarrow> doc list \<Rightarrow> (error + unit) \<times> event list" where
  "userQueue_process e job_data users =
     (let userId = field job_data ''userId''
      in if \<not> truthy userId then (Inl (Error ''Missing userId''), [ConsoleLog ''Missing userId''])
         else if \<not> isValidId e userId then (Inl (Error ''User not found''), [])
         else
           (case ObjectId e userId of
              None \<Rightarrow> (Inl (Error ''BSONTypeError''), [])
            | Some uid \<Rightarrow>
               (let query = [(''_id'', JOid uid)]
                in (case getUser query users of
                      None \<Rightarrow> (Inl (Error ''User not found''), [GetUser query])
                    | Some user \<Rightarrow>
                        (Inr (), [GetUser query,
                                  ConsoleLog (''Welcome '' @ js_string (field user ''email'')
                                              @ ''!'')])))))"

section \<open>Sample data\<close>

text \<open>
  A user record, a file record and a job for it, the values of the libraries at the
  arguments the examples below use, outcomes of the thumbnail derivations, and states
  of the session store.
\<close>

definition env0 :: env where
  "env0 = \<lparr>sha1 = (\<lambda>v. if v = JStr ''toto1234!''
                          then ''89cad29e3ebc1035b29b1478a8e70854f25fa2b2''
                          else ''da39a3ee5e6b4b0d3255bfef95601890afd80709''),
           base64_decode = (\<lambda>s. if s = ''Ym9iQGR5bGFuLmNvbTp0b3RvMTIzNCE=''
                                   then ''bob@dylan.com:toto1234!'' else []),
           ObjectId = (\<lambda>v. case v of
                               JStr s \<Rightarrow> if length s = 24 then Some s else None
                             | JOid s \<Rightarrow> Some s
                             | _ \<Rightarrow> None)\<rparr>"

definition bob :: doc where
  "bob = [(''email'', JStr ''bob@dylan.com''),
          (''password'', JStr ''89cad29e3ebc1035b29b1478a8e70854f25fa2b2''),
          (''_id'', JOid ''5f1e7d35c7ba06511e683b21'')]"

text \<open>
  A user registered with the password \<open>pass:word\<close>, and the values of the libraries
  at the arguments of the two sign-in requests of C1.
\<close>

definition alice :: doc where
  "alice = [(''email'', JStr ''alice@dylan.com''),
            (''password'', JStr ''25f3b0a420f2e4048baa9d0cdb8addbadcf2624f''),
            (''_id'', JOid ''5f1e881cc7ba06511e683b23'')]"

definition env1 :: env where
  "env1 = \<lparr>sha1 = (\<lambda>v. if v = JStr ''pass:word''
                          then ''25f3b0a420f2e4048baa9d0cdb8addbadcf2624f''
                          else if v = JStr ''pass''
                          then ''9d4e1e23bd5b727046a9e3b4b7db57bd8d6ee684''
                          else if v = JStr ''toto1234!''
                          then ''89cad29e3ebc1035b29b1478a8e70854f25fa2b2''
                          else if v = JStr ''toto1234!:extra''
                          then ''80dcf8e35923072f40cbde48caaa7eabf132d071''
                          else ''da39a3ee5e6b4b0d3255bfef95601890afd80709''),
           base64_decode = (\<lambda>s. if s = ''YWxpY2VAZHlsYW4uY29tOnBhc3M6d29yZA==''
                                   then ''alice@dylan.com:pass:word''
                                   else if s = ''Ym9iQGR5bGFuLmNvbTp0b3RvMTIzNCE6ZXh0cmE=''
                                   then ''bob@dylan.com:toto1234!:extra''
                                   else []),
           ObjectId = (\<lambda>v. case v of
                               JStr s \<Rightarrow> if length s = 24 then Some s else None
                             | JOid s \<Rightarrow> Some s
                             | _ \<Rightarrow> None)\<rparr>"

definition redis0 :: redis where
  "redis0 = \<lparr>kv = Map.empty, pending = [], connected = True\<rparr>"

definition redis1 :: redis where
  "redis1 = \<lparr>kv = [''auth_031bffac-3edc-4e51-aaae-1c121317da8a''
                      \<mapsto> (''5f1e7d35c7ba06511e683b21'', 86400)],
              pending = [], connected = True\<rparr>"

definition image_file :: doc where
  "image_file = [(''_id'', JOid ''5f1e879ec7ba06511e683b22''),
                 (''userId'', JOid ''5f1e7d35c7ba06511e683b21''),
                 (''name'', JStr ''image.png''),
                 (''type'', JStr ''image''),
                 (''localPath'', JStr ''/tmp/files_manager/51997b88'')]"

definition io0 :: io where
  "io0 = \<lparr>imageThumbnail = (\<lambda>source width.
              if width = 250 then Inl (Error ''Input file contains unsupported image format'')
              else if width = 500 then Inr ''thumbnail-500''
              else Inr ''thumbnail-100''),
          writeFile_error = (\<lambda>path. None)\<rparr>"

definition image_job :: doc where
  "image_job = [(''fileId'', JStr ''5f1e879ec7ba06511e683b22''),
                (''userId'', JStr ''5f1e7d35c7ba06511e683b21'')]"

definition redis_down :: redis where
  "redis_down = \<lparr>kv = Map.empty, pending = [], connected = False\<rparr>"

section \<open>Look-ups\<close>

lemma matches_two:
  "a \<noteq> JUndefined \<Longrightarrow> b \<noteq> JUndefined \<Longrightarrow>
   matches [(k1, a), (k2, b)] d \<longleftrightarrow> field d k1 = a \<and> field d k2 = b"
  by (auto simp: matches_def field_def split: option.splits)

lemma matches_one:
  "a \<noteq> JUndefined \<Longrightarrow> matches [(k1, a)] d \<longleftrightarrow> field d k1 = a"
  by (auto simp: matches_def field_def split: option.splits)

lemma findOne_None: "findOne q coll = None \<longleftrightarrow> (\<forall>d\<in>set coll. \<not> matches q d)"
  by (auto simp: findOne_def find_None_iff)

lemma findOne_Some: "findOne q coll = Some d \<Longrightarrow> d \<in> set coll \<and> matches q d"
  by (auto simp: findOne_def find_Some_iff)

lemma getConnect_decoded:
  assumes "js_index (split_on CHR '' '' (case hdr of None \<Rightarrow> [] | Some h \<Rightarrow> h)) 1 = Some credentials"
    and "credentials \<noteq> []"
    and "split_on CHR '':'' (base64_decode e credentials) = email # password # rest"
    and "email \<noteq> []" and "password \<noteq> []"
  shows "getConnect e uuid hdr users r =
     (case getUser [(''email'', JStr email), (''password'', JStr (sha1 e (JStr password)))] users of
        None \<Rightarrow> (Inr unauthorized, r)
      | Some user \<Rightarrow>
          (case toString (field user ''_id'') of
             None \<Rightarrow> (Inl (Error ''TypeError''), r)
           | Some uid \<Rightarrow>
               (Inr (send 200 [(''token'', JStr uuid)]),
                r\<lparr>pending := pending r @ [SETEX (auth_key uuid) 86400 uid]\<rparr>)))"
  using assms
  by (simp add: getConnect_def Let_def js_index_def RedisClient_set_def split: option.splits)

section \<open>Sign-in\<close>

text \<open>
  C1. The credentials of a sign-in are \<open>base64(email:password)\<close>. The handler takes
  as password the second colon-separated segment of the decoded text, which is the
  password only when the password has no colon. Two requests show it. Alice is
  registered by \<open>postNew\<close> with the password \<open>pass:word\<close>; she signs in with her
  email and that password, a user record has her email and the digest of her password,
  and the handler looks for the digest of \<open>pass\<close>, answers 401 and sends nothing to
  the session store. Bob's password is \<open>toto1234!\<close>; a request with his email and
  the password \<open>toto1234!:extra\<close>, for which no user record has the digest, is
  answered 200 with a token, and the session key for Bob is sent to the store.
\<close>

theorem getConnect_colon_in_password:
  "users_after (postNew env1 (Inserted ''5f1e881cc7ba06511e683b23'')
      [(''email'', JStr ''alice@dylan.com''), (''password'', JStr ''pass:word'')] [] [])
     = [alice]
   \<and> base64_decode env1 ''YWxpY2VAZHlsYW4uY29tOnBhc3M6d29yZA==''
     = ''alice@dylan.com'' @ '':'' @ ''pass:word''
   \<and> (\<exists>u\<in>set [alice]. field u ''email'' = JStr ''alice@dylan.com''
         \<and> field u ''password'' = JStr (sha1 env1 (JStr ''pass:word'')))
   \<and> getConnect env1 ''031bffac-3edc-4e51-aaae-1c121317da8a''
        (Some ''Basic YWxpY2VAZHlsYW4uY29tOnBhc3M6d29yZA=='') [alice] redis0
     = (Inr unauthorized, redis0)
   \<and> base64_decode env1 ''Ym9iQGR5bGFuLmNvbTp0b3RvMTIzNCE6ZXh0cmE=''
     = ''bob@dylan.com'' @ '':'' @ ''toto1234!:extra''
   \<and> \<not> (\<exists>u\<in>set [bob]. field u ''email'' = JStr ''bob@dylan.com''
         \<and> field u ''password'' = JStr (sha1 env1 (JStr ''toto1234!:extra'')))
   \<and> getConnect env1 ''031bffac-3edc-4e51-aaae-1c121317da8a''
        (Some ''Basic Ym9iQGR5bGFuLmNvbTp0b3RvMTIzNCE6ZXh0cmE='') [bob] redis0
     = (Inr (send 200 [(''token'', JStr ''031bffac-3edc-4e51-aaae-1c121317da8a'')]),
        redis0\<lparr>pending := [SETEX ''auth_031bffac-3edc-4e51-aaae-1c121317da8a'' 86400
                                ''5f1e7d35c7ba06511e683b21'']\<rparr>)"
proof -
  have reg: "users_after (postNew env1 (Inserted ''5f1e881cc7ba06511e683b23'')
      [(''email'', JStr ''alice@dylan.com''), (''password'', JStr ''pass:word'')] [] [])
     = [alice]"
    by (simp add: postNew_def field_def findOne_def env1_def alice_def Let_def)
  have d1: "base64_decode env1 ''YWxpY2VAZHlsYW4uY29tOnBhc3M6d29yZA==''
     = ''alice@dylan.com'' @ '':'' @ ''pass:word''"
    by (simp add: env1_def)
  have m1: "\<exists>u\<in>set [alice]. field u ''email'' = JStr ''alice@dylan.com''
         \<and> field u ''password'' = JStr (sha1 env1 (JStr ''pass:word''))"
    by (simp add: alice_def field_def env1_def)
  have r1: "getConnect env1 ''031bffac-3edc-4e51-aaae-1c121317da8a''
        (Some ''Basic YWxpY2VAZHlsYW4uY29tOnBhc3M6d29yZA=='') [alice] redis0
     = (Inr unauthorized, redis0)"
    by (simp add: getConnect_def js_index_def env1_def getUser_def findOne_def matches_def
                  alice_def Let_def)
  have d2: "base64_decode env1 ''Ym9iQGR5bGFuLmNvbTp0b3RvMTIzNCE6ZXh0cmE=''
     = ''bob@dylan.com'' @ '':'' @ ''toto1234!:extra''"
    by (simp add: env1_def)
  have m2: "\<not> (\<exists>u\<in>set [bob]. field u ''email'' = JStr ''bob@dylan.com''
         \<and> field u ''password'' = JStr (sha1 env1 (JStr ''toto1234!:extra'')))"
    by (simp add: bob_def field_def env1_def)
  have r2: "getConnect env1 ''031bffac-3edc-4e51-aaae-1c121317da8a''
        (Some ''Basic Ym9iQGR5bGFuLmNvbTp0b3RvMTIzNCE6ZXh0cmE='') [bob] redis0
     = (Inr (send 200 [(''token'', JStr ''031bffac-3edc-4e51-aaae-1c121317da8a'')]),
        redis0\<lparr>pending := [SETEX ''auth_031bffac-3edc-4e51-aaae-1c121317da8a'' 86400
                                ''5f1e7d35c7ba06511e683b21'']\<rparr>)"
    by (simp add: getConnect_def js_index_def env1_def getUser_def findOne_def matches_def
                  bob_def field_def Let_def RedisClient_set_def auth_key_def redis0_def)
  from reg d1 m1 r1 d2 m2 r2 show ?thesis by blast
qed

section \<open>Revocation\<close>

text \<open>
  C4. On a connected store, \<open>del\<close> of the key \<open>auth_<t>\<close> followed by \<open>get\<close> of the
  same key returns \<open>null\<close>, whatever the key held and whatever its remaining time to
  live. \<open>del\<close> never fails; deleting a key that is absent leaves the store as it
  was, and deleting twice is deleting once.
\<close>

theorem revoke_then_resolve_absent:
  "(connected r \<longrightarrow>
      fst (RedisClient_get (auth_key t) (snd (RedisClient_del (auth_key t) r)))
        = Some (Inr None))
   \<and> fst (RedisClient_del (auth_key t) r) = Inr ()
   \<and> (kv (server_run r) (auth_key t) = None \<longrightarrow>
        kv (server_run (snd (RedisClient_del (auth_key t) r))) = kv (server_run r))
   \<and> kv (server_run (snd (RedisClient_del (auth_key t) (snd (RedisClient_del (auth_key t) r)))))
       = kv (server_run (snd (RedisClient_del (auth_key t) r)))"
  by (auto simp: RedisClient_get_def RedisClient_del_def server_run_def Let_def)

theorem revoke_then_resolve_absent_witness:
  "connected redis1
   \<and> fst (RedisClient_get ''auth_031bffac-3edc-4e51-aaae-1c121317da8a'' redis1)
       = Some (Inr (Some ''5f1e7d35c7ba06511e683b21''))
   \<and> fst (RedisClient_get ''auth_031bffac-3edc-4e51-aaae-1c121317da8a''
            (snd (RedisClient_del ''auth_031bffac-3edc-4e51-aaae-1c121317da8a'' redis1)))
       = Some (Inr None)
   \<and> kv (server_run redis0) ''auth_031bffac-3edc-4e51-aaae-1c121317da8a'' = None
   \<and> kv (server_run (snd (RedisClient_del ''auth_031bffac-3edc-4e51-aaae-1c121317da8a'' redis0)))
       = kv (server_run redis0)"
proof -
  have c: "connected redis1" by (simp add: redis1_def)
  have p: "fst (RedisClient_get ''auth_031bffac-3edc-4e51-aaae-1c121317da8a'' redis1)
       = Some (Inr (Some ''5f1e7d35c7ba06511e683b21''))"
    by (simp add: redis1_def RedisClient_get_def server_run_def)
  have n: "kv (server_run redis0) ''auth_031bffac-3edc-4e51-aaae-1c121317da8a'' = None"
    by (simp add: redis0_def server_run_def)
  note t1 = revoke_then_resolve_absent [where r = redis1
      and t = "''031bffac-3edc-4e51-aaae-1c121317da8a''"]
  note t0 = revoke_then_resolve_absent [where r = redis0
      and t = "''031bffac-3edc-4e51-aaae-1c121317da8a''"]
  from c p n t1 t0 show ?thesis by (simp add: auth_key_def)
qed

section \<open>User creation\<close>

lemma truthy_defined: "truthy v \<Longrightarrow> v \<noteq> JUndefined"
  by (cases v) simp_all

lemma postNew_exists:
  assumes "truthy (field b ''email'')" and "truthy (field b ''password'')"
    and "findOne [(''email'', field b ''email'')] users = Some d"
  shows "postNew e ins b users userQueue =
     \<lparr>reply = send 400 [(''error'', JStr ''Already exist'')],
      users_after = users, userQueue_after = userQueue,
      calls = [FindOne [(''email'', field b ''email'')]]\<rparr>"
  using assms by (simp add: postNew_def Let_def)

lemma postNew_fresh:
  assumes "truthy (field b ''email'')" and "truthy (field b ''password'')"
    and "findOne [(''email'', field b ''email'')] users = None"
  shows "postNew e ins b users userQueue =
     (case ins of
        InsertThrows err \<Rightarrow>
          \<lparr>reply = send 500 [(''error'', JStr ''Error creating user.'')],
           users_after = users, userQueue_after = userQueue @ [[]],
           calls = [FindOne [(''email'', field b ''email'')],
                    InsertOne [(''email'', field b ''email''),
                               (''password'', JStr (sha1 e (field b ''password'')))]]\<rparr>
      | Inserted insertedId \<Rightarrow>
          \<lparr>reply = send 201 [(''id'', JOid insertedId), (''email'', field b ''email'')],
           users_after = users @ [[(''email'', field b ''email''),
                                   (''password'', JStr (sha1 e (field b ''password''))),
                                   (''_id'', JOid insertedId)]],
           userQueue_after = userQueue @ [[(''userId'', JStr insertedId)]],
           calls = [FindOne [(''email'', field b ''email'')],
                    InsertOne [(''email'', field b ''email''),
                               (''password'', JStr (sha1 e (field b ''password'')))]]\<rparr>)"
  using assms by (simp add: postNew_def Let_def split: insert_outcome.splits)

lemma postNew_missing_email:
  "\<not> truthy (field b ''email'') \<Longrightarrow> postNew e ins b users userQueue =
     \<lparr>reply = send 400 [(''error'', JStr ''Missing email'')],
      users_after = users, userQueue_after = userQueue, calls = []\<rparr>"
  by (simp add: postNew_def Let_def)

lemma postNew_missing_password:
  "truthy (field b ''email'') \<Longrightarrow> \<not> truthy (field b ''password'') \<Longrightarrow>
   postNew e ins b users userQueue =
     \<lparr>reply = send 400 [(''error'', JStr ''Missing password'')],
      users_after = users, userQueue_after = userQueue, calls = []\<rparr>"
  by (simp add: postNew_def Let_def)

lemma findOne_email:
  "truthy a \<Longrightarrow>
   (findOne [(''email'', a)] users = None) = (\<not> (\<exists>u\<in>set users. field u ''email'' = a))"
  by (simp add: findOne_None matches_one truthy_defined)

text \<open>
  C5 (as amended). A request with email and password present whose email is the email
  of an existing user record is answered 400 \<open>Already exist\<close>, and nothing is
  inserted or enqueued. A request with no email is answered 400 \<open>Missing email\<close> and
  one with an email and no password 400 \<open>Missing password\<close>, both before any call on
  the store. \<open>insertOne\<close> is called only after the look-up by email found no record,
  and the collection changes only then.
\<close>

theorem postNew_email_unique:
  "(truthy (field b ''email'') \<and> truthy (field b ''password'')
      \<and> (\<exists>u\<in>set users. field u ''email'' = field b ''email'') \<longrightarrow>
      postNew e ins b users userQueue =
        \<lparr>reply = send 400 [(''error'', JStr ''Already exist'')],
         users_after = users, userQueue_after = userQueue,
         calls = [FindOne [(''email'', field b ''email'')]]\<rparr>)
   \<and> (\<not> truthy (field b ''email'') \<longrightarrow>
      postNew e ins b users userQueue =
        \<lparr>reply = send 400 [(''error'', JStr ''Missing email'')],
         users_after = users, userQueue_after = userQueue, calls = []\<rparr>)
   \<and> (truthy (field b ''email'') \<and> \<not> truthy (field b ''password'') \<longrightarrow>
      postNew e ins b users userQueue =
        \<lparr>reply = send 400 [(''error'', JStr ''Missing password'')],
         users_after = users, userQueue_after = userQueue, calls = []\<rparr>)
   \<and> (\<forall>d. InsertOne d \<in> set (calls (postNew e ins b users userQueue)) \<longrightarrow>
         truthy (field b ''email'') \<and> truthy (field b ''password'')
       \<and> \<not> (\<exists>u\<in>set users. field u ''email'' = field b ''email'')
       \<and> calls (postNew e ins b users userQueue) = [FindOne [(''email'', field b ''email'')], InsertOne d])
   \<and> (users_after (postNew e ins b users userQueue) \<noteq> users \<longrightarrow>
         \<not> (\<exists>u\<in>set users. field u ''email'' = field b ''email''))"
proof (cases "truthy (field b ''email'')")
  case False
  then show ?thesis by (simp add: postNew_missing_email)
next
  case em: True
  show ?thesis
  proof (cases "truthy (field b ''password'')")
    case False
    with em show ?thesis by (simp add: postNew_missing_password)
  next
    case pw: True
    show ?thesis
    proof (cases "findOne [(''email'', field b ''email'')] users")
      case None
      then have no: "\<not> (\<exists>u\<in>set users. field u ''email'' = field b ''email'')"
        using em by (simp add: findOne_email)
      show ?thesis
        using em pw no postNew_fresh [OF em pw None, of e ins userQueue]
        by (cases ins) auto
    next
      case (Some d)
      then have "\<exists>u\<in>set users. field u ''email'' = field b ''email''"
        using em findOne_email [of "field b ''email''" users] by auto
      then show ?thesis
        using em pw postNew_exists [OF em pw Some, of e ins userQueue] by simp
    qed
  qed
qed

theorem postNew_email_unique_witness:
  "truthy (field [(''email'', JStr ''bob@dylan.com''), (''password'', JStr ''toto1234!'')] ''email'')
   \<and> postNew env0 (Inserted ''5f1e881cc7ba06511e683b23'')
        [(''email'', JStr ''bob@dylan.com''), (''password'', JStr ''toto1234!'')] [bob] []
      = \<lparr>reply = send 400 [(''error'', JStr ''Already exist'')],
         users_after = [bob], userQueue_after = [],
         calls = [FindOne [(''email'', JStr ''bob@dylan.com'')]]\<rparr>
   \<and> postNew env0 (Inserted ''5f1e881cc7ba06511e683b23'')
        [(''password'', JStr ''toto1234!'')] [bob] []
      = \<lparr>reply = send 400 [(''error'', JStr ''Missing email'')],
         users_after = [bob], userQueue_after = [], calls = []\<rparr>
   \<and> postNew env0 (Inserted ''5f1e881cc7ba06511e683b23'')
        [(''email'', JStr ''bob@dylan.com'')] [] []
      = \<lparr>reply = send 400 [(''error'', JStr ''Missing password'')],
         users_after = [], userQueue_after = [], calls = []\<rparr>
   \<and> InsertOne [(''email'', JStr ''bob@dylan.com''),
                 (''password'', JStr ''89cad29e3ebc1035b29b1478a8e70854f25fa2b2'')]
       \<in> set (calls (postNew env0 (Inserted ''5f1e881cc7ba06511e683b23'')
            [(''email'', JStr ''bob@dylan.com''), (''password'', JStr ''toto1234!'')] [] []))
   \<and> users_after (postNew env0 (Inserted ''5f1e881cc7ba06511e683b23'')
            [(''email'', JStr ''bob@dylan.com''), (''password'', JStr ''toto1234!'')] [] []) \<noteq> []"
proof -
  note t1 = postNew_email_unique [where e = env0 and ins = "Inserted ''5f1e881cc7ba06511e683b23''"
      and b = "[(''email'', JStr ''bob@dylan.com''), (''password'', JStr ''toto1234!'')]"
      and users = "[bob]" and userQueue = "[]"]
  note t2 = postNew_email_unique [where e = env0 and ins = "Inserted ''5f1e881cc7ba06511e683b23''"
      and b = "[(''password'', JStr ''toto1234!'')]"
      and users = "[bob]" and userQueue = "[]"]
  note t3 = postNew_email_unique [where e = env0 and ins = "Inserted ''5f1e881cc7ba06511e683b23''"
      and b = "[(''email'', JStr ''bob@dylan.com'')]"
      and users = "[]" and userQueue = "[]"]
  have a: "postNew env0 (Inserted ''5f1e881cc7ba06511e683b23'')
        [(''email'', JStr ''bob@dylan.com''), (''password'', JStr ''toto1234!'')] [bob] []
      = \<lparr>reply = send 400 [(''error'', JStr ''Already exist'')],
         users_after = [bob], userQueue_after = [],
         calls = [FindOne [(''email'', JStr ''bob@dylan.com'')]]\<rparr>"
    using t1 by (simp add: field_def bob_def)
  have b: "postNew env0 (Inserted ''5f1e881cc7ba06511e683b23'')
        [(''password'', JStr ''toto1234!'')] [bob] []
      = \<lparr>reply = send 400 [(''error'', JStr ''Missing email'')],
         users_after = [bob], userQueue_after = [], calls = []\<rparr>"
    using t2 by (simp add: field_def)
  have c: "postNew env0 (Inserted ''5f1e881cc7ba06511e683b23'')
        [(''email'', JStr ''bob@dylan.com'')] [] []
      = \<lparr>reply = send 400 [(''error'', JStr ''Missing password'')],
         users_after = [], userQueue_after = [], calls = []\<rparr>"
    using t3 by (simp add: field_def)
  have d: "InsertOne [(''email'', JStr ''bob@dylan.com''),
                 (''password'', JStr ''89cad29e3ebc1035b29b1478a8e70854f25fa2b2'')]
       \<in> set (calls (postNew env0 (Inserted ''5f1e881cc7ba06511e683b23'')
            [(''email'', JStr ''bob@dylan.com''), (''password'', JStr ''toto1234!'')] [] []))"
    by (simp add: postNew_def field_def findOne_def env0_def Let_def)
  have e: "users_after (postNew env0 (Inserted ''5f1e881cc7ba06511e683b23'')
            [(''email'', JStr ''bob@dylan.com''), (''password'', JStr ''toto1234!'')] [] []) \<noteq> []"
    by (simp add: postNew_def field_def findOne_def env0_def Let_def)
  from a b c d e show ?thesis by (simp add: field_def)
qed

text \<open>
  C5 as stated fails where the email is that of an existing record and the password is
  missing: the password check comes before the look-up, and the answer is 400
  \<open>Missing password\<close>, not 400 \<open>Already exist\<close>.
\<close>

theorem postNew_email_unique_counterexample:
  "(\<exists>u\<in>set [bob]. field u ''email'' = field [(''email'', JStr ''bob@dylan.com'')] ''email'')
   \<and> reply (postNew env0 (Inserted ''5f1e881cc7ba06511e683b23'')
              [(''email'', JStr ''bob@dylan.com'')] [bob] [])
       = send 400 [(''error'', JStr ''Missing password'')]
   \<and> reply (postNew env0 (Inserted ''5f1e881cc7ba06511e683b23'')
              [(''email'', JStr ''bob@dylan.com'')] [bob] [])
       \<noteq> send 400 [(''error'', JStr ''Already exist'')]"
  by (simp add: postNew_def field_def bob_def send_def)

lemma userQueue_process_missing:
  "\<not> truthy (field job ''userId'') \<Longrightarrow>
   userQueue_process e job users = (Inl (Error ''Missing userId''), [ConsoleLog ''Missing userId''])"
  by (simp add: userQueue_process_def Let_def)

text \<open>
  C6. When \<open>insertOne\<close> throws, the handler adds the job \<open>{}\<close> to the user queue and
  answers 500. The user queue's processor fails on that job, and on every job with no
  \<open>userId\<close>, with \<open>Missing userId\<close>.
\<close>

theorem postNew_insert_failure_fallback:
  "(truthy (field b ''email'') \<and> truthy (field b ''password'')
      \<and> \<not> (\<exists>u\<in>set users. field u ''email'' = field b ''email'') \<longrightarrow>
      postNew e (InsertThrows err) b users userQueue =
        \<lparr>reply = send 500 [(''error'', JStr ''Error creating user.'')],
         users_after = users, userQueue_after = userQueue @ [[]],
         calls = [FindOne [(''email'', field b ''email'')],
                  InsertOne [(''email'', field b ''email''),
                             (''password'', JStr (sha1 e (field b ''password'')))]]\<rparr>)
   \<and> field [] ''userId'' = JUndefined
   \<and> userQueue_process e' [] users' =
        (Inl (Error ''Missing userId''), [ConsoleLog ''Missing userId''])
   \<and> (\<forall>job. \<not> truthy (field job ''userId'') \<longrightarrow>
        userQueue_process e' job users' =
          (Inl (Error ''Missing userId''), [ConsoleLog ''Missing userId'']))"
proof -
  have a: "postNew e (InsertThrows err) b users userQueue =
        \<lparr>reply = send 500 [(''error'', JStr ''Error creating user.'')],
         users_after = users, userQueue_after = userQueue @ [[]],
         calls = [FindOne [(''email'', field b ''email'')],
                  InsertOne [(''email'', field b ''email''),
                             (''password'', JStr (sha1 e (field b ''password'')))]]\<rparr>"
    if em: "truthy (field b ''email'')" and pw: "truthy (field b ''password'')"
      and no: "\<not> (\<exists>u\<in>set users. field u ''email'' = field b ''email'')"
  proof -
    have "findOne [(''email'', field b ''email'')] users = None"
      using em no by (simp add: findOne_email)
    from postNew_fresh [OF em pw this, of e "InsertThrows err" userQueue]
    show ?thesis by simp
  qed
  have b: "field [] ''userId'' = JUndefined" by (simp add: field_def)
  have c: "userQueue_process e' [] users' =
        (Inl (Error ''Missing userId''), [ConsoleLog ''Missing userId''])"
    by (rule userQueue_process_missing) (simp add: b)
  from a b c userQueue_process_missing show ?thesis by blast
qed

theorem postNew_insert_failure_fallback_witness:
  "postNew env0 (InsertThrows (Error ''MongoError''))
      [(''email'', JStr ''bob@dylan.com''), (''password'', JStr ''toto1234!'')] [] []
     = \<lparr>reply = send 500 [(''error'', JStr ''Error creating user.'')],
        users_after = [], userQueue_after = [[]],
        calls = [FindOne [(''email'', JStr ''bob@dylan.com'')],
                 InsertOne [(''email'', JStr ''bob@dylan.com''),
                            (''password'', JStr ''89cad29e3ebc1035b29b1478a8e70854f25fa2b2'')]]\<rparr>
   \<and> userQueue_process env0 (hd (userQueue_after (postNew env0 (InsertThrows (Error ''MongoError''))
        [(''email'', JStr ''bob@dylan.com''), (''password'', JStr ''toto1234!'')] [] []))) [bob]
     = (Inl (Error ''Missing userId''), [ConsoleLog ''Missing userId''])
   \<and> \<not> truthy (field [(''userId'', JStr '''')] ''userId'')
   \<and> userQueue_process env0 [(''userId'', JStr '''')] [bob]
     = (Inl (Error ''Missing userId''), [ConsoleLog ''Missing userId''])"
proof -
  note t = postNew_insert_failure_fallback [where e = env0 and err = "Error ''MongoError''"
      and b = "[(''email'', JStr ''bob@dylan.com''), (''password'', JStr ''toto1234!'')]"
      and users = "[]" and userQueue = "[]" and e' = env0 and users' = "[bob]"]
  have a: "postNew env0 (InsertThrows (Error ''MongoError''))
      [(''email'', JStr ''bob@dylan.com''), (''password'', JStr ''toto1234!'')] [] []
     = \<lparr>reply = send 500 [(''error'', JStr ''Error creating user.'')],
        users_after = [], userQueue_after = [[]],
        calls = [FindOne [(''email'', JStr ''bob@dylan.com'')],
                 InsertOne [(''email'', JStr ''bob@dylan.com''),
                            (''password'', JStr ''89cad29e3ebc1035b29b1478a8e70854f25fa2b2'')]]\<rparr>"
    using t by (simp add: field_def env0_def)
  have b: "userQueue_process env0 [] [bob]
     = (Inl (Error ''Missing userId''), [ConsoleLog ''Missing userId''])"
    using t by simp
  have c: "\<not> truthy (field [(''userId'', JStr '''')] ''userId'')" by (simp add: field_def)
  have d: "userQueue_process env0 [(''userId'', JStr '''')] [bob]
     = (Inl (Error ''Missing userId''), [ConsoleLog ''Missing userId''])"
    using t c by blast
  from a b c d show ?thesis by simp
qed

section \<open>What the responses hold\<close>

lemma keys_obj_delete: "fst ` set (obj_delete k d) = fst ` set d - {k}"
  by (auto simp: obj_delete_def image_iff)

lemma map_of_obj_delete_same: "map_of (obj_delete k d) k = None"
  by (simp add: map_of_eq_None_iff keys_obj_delete)

lemma getMe_cases:
  "getMe e userId users =
     (case ObjectId e userId of
        None \<Rightarrow> Inl (Error ''BSONTypeError'')
      | Some oid \<Rightarrow>
         (case findOne [(''_id'', JOid oid)] users of
            None \<Rightarrow> Inr unauthorized
          | Some user \<Rightarrow>
              Inr (send 200 (obj_delete ''password'' (obj_delete ''_id''
                     (spread [(''id'', field user ''_id'')] user))))))"
  by (simp add: getMe_def getUser_def Let_def split: option.splits)

text \<open>
  C8. No response of \<open>postNew\<close> has a field \<open>password\<close>, and the body of its 201
  response is exactly the inserted identifier and the email. No response of \<open>getMe\<close>
  has a field \<open>password\<close>: the body of its 200 response is a user record with \<open>id\<close>
  set and \<open>_id\<close> and \<open>password\<close> deleted, which for a record as \<open>postNew\<close> stores
  it is the identifier and the email.
\<close>

theorem password_digest_not_returned:
  "(\<forall>rb. body (reply (postNew e ins b users userQueue)) = Some rb \<longrightarrow>
       map_of rb ''password'' = None)
   \<and> (status (reply (postNew e ins b users userQueue)) = 201 \<longrightarrow>
       (\<exists>insertedId. ins = Inserted insertedId
          \<and> body (reply (postNew e ins b users userQueue))
              = Some [(''id'', JOid insertedId), (''email'', field b ''email'')]))
   \<and> (\<forall>resp rb. getMe e userId users = Inr resp \<and> body resp = Some rb \<longrightarrow>
       map_of rb ''password'' = None)
   \<and> (\<forall>resp. getMe e userId users = Inr resp \<and> status resp = 200 \<longrightarrow>
       (\<exists>user\<in>set users.
          body resp = Some (obj_delete ''password'' (obj_delete ''_id''
                              (spread [(''id'', field user ''_id'')] user)))))
   \<and> obj_delete ''password'' (obj_delete ''_id''
        (spread [(''id'', field [(''email'', em), (''password'', pw), (''_id'', oid)] ''_id'')]
                [(''email'', em), (''password'', pw), (''_id'', oid)]))
       = [(''id'', oid), (''email'', em)]"
proof -
  have p1: "\<forall>rb. body (reply (postNew e ins b users userQueue)) = Some rb \<longrightarrow>
       map_of rb ''password'' = None"
    by (auto simp: postNew_def Let_def send_def split: option.splits insert_outcome.splits)
  have p2: "status (reply (postNew e ins b users userQueue)) = 201 \<longrightarrow>
       (\<exists>insertedId. ins = Inserted insertedId
          \<and> body (reply (postNew e ins b users userQueue))
              = Some [(''id'', JOid insertedId), (''email'', field b ''email'')])"
    by (auto simp: postNew_def Let_def send_def split: option.splits insert_outcome.splits)
  have g1: "\<forall>resp rb. getMe e userId users = Inr resp \<and> body resp = Some rb \<longrightarrow>
       map_of rb ''password'' = None"
    by (auto simp: getMe_cases send_def unauthorized_def map_of_obj_delete_same
             split: option.splits)
  have g2: "\<forall>resp. getMe e userId users = Inr resp \<and> status resp = 200 \<longrightarrow>
       (\<exists>user\<in>set users.
          body resp = Some (obj_delete ''password'' (obj_delete ''_id''
                              (spread [(''id'', field user ''_id'')] user))))"
    by (auto simp: getMe_cases send_def unauthorized_def split: option.splits
             dest: findOne_Some)
  have g3: "obj_delete ''password'' (obj_delete ''_id''
        (spread [(''id'', field [(''email'', em), (''password'', pw), (''_id'', oid)] ''_id'')]
                [(''email'', em), (''password'', pw), (''_id'', oid)]))
       = [(''id'', oid), (''email'', em)]"
    by (simp add: spread_def obj_delete_def field_def)
  from p1 p2 g1 g2 g3 show ?thesis by blast
qed

theorem password_digest_not_returned_witness:
  "body (reply (postNew env0 (Inserted ''5f1e881cc7ba06511e683b23'')
        [(''email'', JStr ''bob@dylan.com''), (''password'', JStr ''toto1234!'')] [] []))
     = Some [(''id'', JOid ''5f1e881cc7ba06511e683b23''), (''email'', JStr ''bob@dylan.com'')]
   \<and> status (reply (postNew env0 (Inserted ''5f1e881cc7ba06511e683b23'')
        [(''email'', JStr ''bob@dylan.com''), (''password'', JStr ''toto1234!'')] [] [])) = 201
   \<and> getMe env0 (JStr ''5f1e7d35c7ba06511e683b21'') [bob]
     = Inr (send 200 [(''id'', JOid ''5f1e7d35c7ba06511e683b21''),
                      (''email'', JStr ''bob@dylan.com'')])
   \<and> map_of [(''id'', JOid ''5f1e7d35c7ba06511e683b21''), (''email'', JStr ''bob@dylan.com'')]
        ''password'' = None"
proof -
  note t = password_digest_not_returned [where e = env0
      and ins = "Inserted ''5f1e881cc7ba06511e683b23''"
      and b = "[(''email'', JStr ''bob@dylan.com''), (''password'', JStr ''toto1234!'')]"
      and users = "[]" and userQueue = "[]"]
  note u = password_digest_not_returned [where e = env0
      and userId = "JStr ''5f1e7d35c7ba06511e683b21''" and users = "[bob]"]
  have s: "status (reply (postNew env0 (Inserted ''5f1e881cc7ba06511e683b23'')
        [(''email'', JStr ''bob@dylan.com''), (''password'', JStr ''toto1234!'')] [] [])) = 201"
    by (simp add: postNew_def field_def findOne_def Let_def send_def)
  have a: "body (reply (postNew env0 (Inserted ''5f1e881cc7ba06511e683b23'')
        [(''email'', JStr ''bob@dylan.com''), (''password'', JStr ''toto1234!'')] [] []))
     = Some [(''id'', JOid ''5f1e881cc7ba06511e683b23''), (''email'', JStr ''bob@dylan.com'')]"
    using t s by (simp add: field_def)
  have g: "getMe env0 (JStr ''5f1e7d35c7ba06511e683b21'') [bob]
     = Inr (send 200 [(''id'', JOid ''5f1e7d35c7ba06511e683b21''),
                      (''email'', JStr ''bob@dylan.com'')])"
    by (simp add: getMe_cases env0_def findOne_def matches_def bob_def spread_def
                  obj_delete_def field_def)
  have "\<forall>resp rb. getMe env0 (JStr ''5f1e7d35c7ba06511e683b21'') [bob] = Inr resp
            \<and> body resp = Some rb \<longrightarrow> map_of rb ''password'' = None"
    using u by blast
  from this [rule_format, of "send 200 [(''id'', JOid ''5f1e7d35c7ba06511e683b21''),
                      (''email'', JStr ''bob@dylan.com'')]"
      "[(''id'', JOid ''5f1e7d35c7ba06511e683b21''), (''email'', JStr ''bob@dylan.com'')]"] g
  have m: "map_of [(''id'', JOid ''5f1e7d35c7ba06511e683b21''), (''email'', JStr ''bob@dylan.com'')]
        ''password'' = None"
    by (simp add: send_def)
  from s a g m show ?thesis by simp
qed

section \<open>The file queue's processor\<close>

lemma fileQueue_process_validated:
  assumes "truthy (field job ''fileId'')" and "truthy (field job ''userId'')"
    and "ObjectId e (field job ''fileId'') = Some fid"
    and "ObjectId e (field job ''userId'') = Some uid"
  shows "fileQueue_process e job files =
     (case findOne [(''_id'', JOid fid), (''userId'', JOid uid)] files of
        None \<Rightarrow> \<lparr>settled = Inl (Error ''File not found''),
                 events = [GetFile [(''_id'', JOid fid), (''userId'', JOid uid)]],
                 suspended = []\<rparr>
      | Some file \<Rightarrow>
          \<lparr>settled = Inr (),
           events = [GetFile [(''_id'', JOid fid), (''userId'', JOid uid)],
                     ImageThumbnail (field file ''localPath'') 500,
                     ImageThumbnail (field file ''localPath'') 250,
                     ImageThumbnail (field file ''localPath'') 100],
           suspended = [(field file ''localPath'', 500), (field file ''localPath'', 250),
                        (field file ''localPath'', 100)]\<rparr>)"
  using assms
  by (simp add: fileQueue_process_def Let_def isValidId_def getFile_def failed_def
           split: option.splits)

text \<open>
  C2. For a job whose \<open>fileId\<close> and \<open>userId\<close> are present and valid identifiers,
  the processor fetches once, with a query on both \<open>_id\<close> and \<open>userId\<close>. When no
  file record has both, because there is no such file or because its owner is another
  user, the job fails with \<open>File not found\<close>, no thumbnail is asked for and no
  callback is left suspended.
\<close>

theorem fileQueue_refetch_both_fields:
  assumes "truthy (field job ''fileId'')" and "truthy (field job ''userId'')"
    and "ObjectId e (field job ''fileId'') = Some fid"
    and "ObjectId e (field job ''userId'') = Some uid"
  shows "isValidId e (field job ''fileId'') \<and> isValidId e (field job ''userId'')
    \<and> [q. GetFile q \<leftarrow> events (fileQueue_process e job files)]
        = [[(''_id'', JOid fid), (''userId'', JOid uid)]]
    \<and> (\<not> (\<exists>d\<in>set files. field d ''_id'' = JOid fid \<and> field d ''userId'' = JOid uid) \<longrightarrow>
         fileQueue_process e job files =
           \<lparr>settled = Inl (Error ''File not found''),
            events = [GetFile [(''_id'', JOid fid), (''userId'', JOid uid)]],
            suspended = []\<rparr>)"
proof -
  let ?q = "[(''_id'', JOid fid), (''userId'', JOid uid)]"
  note run = fileQueue_process_validated [OF assms, of files]
  have v: "isValidId e (field job ''fileId'') \<and> isValidId e (field job ''userId'')"
    using assms by (simp add: isValidId_def)
  have one: "[q. GetFile q \<leftarrow> events (fileQueue_process e job files)] = [?q]"
    by (cases "findOne ?q files") (simp_all add: run)
  have m: "\<And>d. matches ?q d \<longleftrightarrow> field d ''_id'' = JOid fid \<and> field d ''userId'' = JOid uid"
    by (rule matches_two) simp_all
  have nf: "fileQueue_process e job files =
           \<lparr>settled = Inl (Error ''File not found''), events = [GetFile ?q], suspended = []\<rparr>"
    if "\<not> (\<exists>d\<in>set files. field d ''_id'' = JOid fid \<and> field d ''userId'' = JOid uid)"
  proof -
    from that have "findOne ?q files = None" by (simp add: findOne_None m)
    then show ?thesis by (simp add: run)
  qed
  from v one nf show ?thesis by blast
qed

theorem fileQueue_refetch_both_fields_witness:
  "truthy (field [(''fileId'', JStr ''5f1e879ec7ba06511e683b22''),
                  (''userId'', JStr ''5f1e881cc7ba06511e683b23'')] ''fileId'')
   \<and> isValidId env0 (JStr ''5f1e881cc7ba06511e683b23'')
   \<and> fileQueue_process env0 [(''fileId'', JStr ''5f1e879ec7ba06511e683b22''),
                              (''userId'', JStr ''5f1e881cc7ba06511e683b23'')] [image_file]
      = \<lparr>settled = Inl (Error ''File not found''),
         events = [GetFile [(''_id'', JOid ''5f1e879ec7ba06511e683b22''),
                            (''userId'', JOid ''5f1e881cc7ba06511e683b23'')]],
         suspended = []\<rparr>"
proof -
  let ?job = "[(''fileId'', JStr ''5f1e879ec7ba06511e683b22''),
               (''userId'', JStr ''5f1e881cc7ba06511e683b23'')]"
  have h1: "truthy (field ?job ''fileId'')" and h2: "truthy (field ?job ''userId'')"
    by (simp_all add: field_def)
  have h3: "ObjectId env0 (field ?job ''fileId'') = Some ''5f1e879ec7ba06511e683b22''"
    and h4: "ObjectId env0 (field ?job ''userId'') = Some ''5f1e881cc7ba06511e683b23''"
    by (simp_all add: field_def env0_def)
  note t = fileQueue_refetch_both_fields [where files = "[image_file]", OF h1 h2 h3 h4]
  have n: "\<not> (\<exists>d\<in>set [image_file]. field d ''_id'' = JOid ''5f1e879ec7ba06511e683b22''
              \<and> field d ''userId'' = JOid ''5f1e881cc7ba06511e683b23'')"
    by (simp add: image_file_def field_def)
  have v: "isValidId env0 (JStr ''5f1e881cc7ba06511e683b23'')"
    using t by (simp add: field_def)
  from h1 v t n show ?thesis by blast
qed

section \<open>The user queue's processor\<close>

text \<open>
  C7. A job whose \<open>userId\<close> is present and not a valid identifier fails with
  \<open>User not found\<close> before any call on the store; the processor fetches a user only
  for a \<open>userId\<close> that is present and valid.
\<close>

theorem userQueue_invalid_id_no_fetch:
  "(truthy (field job ''userId'') \<and> \<not> isValidId e (field job ''userId'') \<longrightarrow>
      userQueue_process e job users = (Inl (Error ''User not found''), []))
   \<and> (\<forall>q. GetUser q \<in> set (snd (userQueue_process e job users)) \<longrightarrow>
        truthy (field job ''userId'') \<and> isValidId e (field job ''userId''))"
  by (auto simp: userQueue_process_def Let_def isValidId_def split: option.splits if_splits)

theorem userQueue_invalid_id_no_fetch_witness:
  "truthy (field [(''userId'', JStr ''not-an-id'')] ''userId'')
   \<and> \<not> isValidId env0 (field [(''userId'', JStr ''not-an-id'')] ''userId'')
   \<and> userQueue_process env0 [(''userId'', JStr ''not-an-id'')] [bob]
       = (Inl (Error ''User not found''), [])
   \<and> GetUser [(''_id'', JOid ''5f1e7d35c7ba06511e683b21'')]
       \<in> set (snd (userQueue_process env0 [(''userId'', JStr ''5f1e7d35c7ba06511e683b21'')] [bob]))
   \<and> isValidId env0 (field [(''userId'', JStr ''5f1e7d35c7ba06511e683b21'')] ''userId'')"
proof -
  have h1: "truthy (field [(''userId'', JStr ''not-an-id'')] ''userId'')"
    by (simp add: field_def)
  have h2: "\<not> isValidId env0 (field [(''userId'', JStr ''not-an-id'')] ''userId'')"
    by (simp add: field_def isValidId_def env0_def)
  have h3: "GetUser [(''_id'', JOid ''5f1e7d35c7ba06511e683b21'')]
       \<in> set (snd (userQueue_process env0 [(''userId'', JStr ''5f1e7d35c7ba06511e683b21'')] [bob]))"
    by (simp add: userQueue_process_def field_def isValidId_def env0_def getUser_def
                  findOne_def matches_def bob_def Let_def)
  note t1 = userQueue_invalid_id_no_fetch [where e = env0
      and job = "[(''userId'', JStr ''not-an-id'')]" and users = "[bob]"]
  note t2 = userQueue_invalid_id_no_fetch [where e = env0
      and job = "[(''userId'', JStr ''5f1e7d35c7ba06511e683b21'')]" and users = "[bob]"]
  from h1 h2 h3 t1 t2 show ?thesis by blast
qed

section \<open>Thumbnails\<close>

lemma resume_split:
  "resume env task (fs, log) =
     ((case written env task of None \<Rightarrow> fs | Some (p, t) \<Rightarrow> fs(p \<mapsto> t)),
      log @ logged env task)"
  by (cases task)
     (simp add: written_def logged_def Let_def split: sum.splits option.splits error.splits)

lemma resume_all_log:
  "snd (resume_all env sched (fs, log)) = log @ concat (map (logged env) sched)"
  unfolding resume_all_def
  by (induction sched arbitrary: fs log) (simp_all add: resume_split)

lemma resume_all_untouched:
  "(\<And>task t. task \<in> set sched \<Longrightarrow> written env task \<noteq> Some (p, t)) \<Longrightarrow>
   fst (resume_all env sched (fs, log)) p = fs p"
  unfolding resume_all_def
proof (induction sched arbitrary: fs log)
  case Nil
  then show ?case by simp
next
  case (Cons x xs)
  have "fst (fold (resume env) xs (resume env x (fs, log))) p
        = (case written env x of None \<Rightarrow> fs | Some (q, t) \<Rightarrow> fs(q \<mapsto> t)) p"
    unfolding resume_split by (rule Cons.IH) (simp add: Cons.prems)
  also have "\<dots> = fs p"
    using Cons.prems [of x] by (auto split: option.splits)
  finally show ?case by simp
qed

lemma resume_all_written:
  "task \<in> set sched \<Longrightarrow> written env task = Some (p, t) \<Longrightarrow>
   (\<And>task' t'. task' \<in> set sched \<Longrightarrow> written env task' = Some (p, t') \<Longrightarrow> t' = t) \<Longrightarrow>
   fst (resume_all env sched (fs, log)) p = Some t"
  unfolding resume_all_def
proof (induction sched arbitrary: fs log task)
  case Nil
  then show ?case by simp
next
  case (Cons x xs)
  let ?fs = "case written env x of None \<Rightarrow> fs | Some (q, t) \<Rightarrow> fs(q \<mapsto> t)"
  have step: "fold (resume env) (x # xs) (fs, log)
              = fold (resume env) xs (?fs, log @ logged env x)"
    by (simp add: resume_split)
  show ?case
  proof (cases "\<exists>task'\<in>set xs. \<exists>t'. written env task' = Some (p, t')")
    case True
    then obtain task' t' where in_xs: "task' \<in> set xs" and w: "written env task' = Some (p, t')"
      by blast
    then have "t' = t" using Cons.prems(3) [of task' t'] by simp
    with w have w': "written env task' = Some (p, t)" by simp
    have "fst (fold (resume env) xs (?fs, log @ logged env x)) p = Some t"
      by (rule Cons.IH [OF in_xs w']) (rule Cons.prems(3), simp_all)
    then show ?thesis by (simp only: step)
  next
    case False
    then have no: "\<And>task' t'. task' \<in> set xs \<Longrightarrow> written env task' \<noteq> Some (p, t')"
      by blast
    from no [of task t] Cons.prems(1,2) have x: "written env x = Some (p, t)" by auto
    have "fst (fold (resume env) xs (?fs, log @ logged env x)) p = ?fs p"
      using resume_all_untouched [of xs env p ?fs "log @ logged env x"] no
      by (simp add: resume_all_def)
    also have "\<dots> = Some t" by (simp add: x)
    finally show ?thesis by (simp only: step)
  qed
qed

lemma digits_of_widths:
  "string_of_nat 500 = ''500''" "string_of_nat 250 = ''250''" "string_of_nat 100 = ''100''"
  by (simp_all add: string_of_nat.simps digit_char_def)

lemma written_Some:
  "written env (lp, w) = Some (p, t) \<longleftrightarrow>
     p = js_string lp @ ''_'' @ string_of_nat w \<and> imageThumbnail env lp w = Inr t
     \<and> writeFile_error env (js_string lp @ ''_'' @ string_of_nat w) = None"
  by (auto simp: written_def split: sum.splits option.splits)

lemma concat_logged_perm:
  assumes "mset sched = mset tasks"
  shows "mset (concat (map (logged env) sched)) = mset (concat (map (logged env) tasks))"
proof -
  have "\<And>xs. mset (concat (map (logged env) xs))
            = sum_mset (image_mset (\<lambda>task. mset (logged env task)) (mset xs))"
    by (induct_tac xs) simp_all
  then show ?thesis by (simp add: assms)
qed

lemma paths_of_widths:
  "s @ ''_'' @ string_of_nat 500 \<noteq> s @ ''_'' @ string_of_nat 250"
  "s @ ''_'' @ string_of_nat 500 \<noteq> s @ ''_'' @ string_of_nat 100"
  "s @ ''_'' @ string_of_nat 250 \<noteq> s @ ''_'' @ string_of_nat 100"
  by (simp_all add: digits_of_widths)

lemma image_job_run:
  "fileQueue_process env0 image_job [image_file] =
     \<lparr>settled = Inr (),
      events = [GetFile [(''_id'', JOid ''5f1e879ec7ba06511e683b22''),
                         (''userId'', JOid ''5f1e7d35c7ba06511e683b21'')],
                ImageThumbnail (JStr ''/tmp/files_manager/51997b88'') 500,
                ImageThumbnail (JStr ''/tmp/files_manager/51997b88'') 250,
                ImageThumbnail (JStr ''/tmp/files_manager/51997b88'') 100],
      suspended = [(JStr ''/tmp/files_manager/51997b88'', 500),
                   (JStr ''/tmp/files_manager/51997b88'', 250),
                   (JStr ''/tmp/files_manager/51997b88'', 100)]\<rparr>"
  by (simp add: fileQueue_process_def image_job_def image_file_def env0_def field_def
                isValidId_def getFile_def findOne_def matches_def Let_def)

text \<open>
  C9. When the identifiers are present and valid and the file record is found, the
  promise of the processor resolves, after the fetch and the three calls of
  \<open>imageThumbnail\<close>, while all three callbacks are still suspended at their first
  \<open>await\<close>: no derivation has been waited for and no artifact written. The outcome
  of the job is fixed then, before any derivation or write has an outcome.
\<close>

theorem fileQueue_settles_before_thumbnails:
  assumes "truthy (field job ''fileId'')" and "truthy (field job ''userId'')"
    and "ObjectId e (field job ''fileId'') = Some fid"
    and "ObjectId e (field job ''userId'') = Some uid"
    and found: "getFile [(''_id'', JOid fid), (''userId'', JOid uid)] files = Some file"
  shows "fileQueue_process e job files =
      \<lparr>settled = Inr (),
       events = [GetFile [(''_id'', JOid fid), (''userId'', JOid uid)],
                 ImageThumbnail (field file ''localPath'') 500,
                 ImageThumbnail (field file ''localPath'') 250,
                 ImageThumbnail (field file ''localPath'') 100],
       suspended = [(field file ''localPath'', 500), (field file ''localPath'', 250),
                    (field file ''localPath'', 100)]\<rparr>"
  using fileQueue_process_validated [OF assms(1-4), of files] found
  by (simp add: getFile_def)

theorem fileQueue_settles_before_thumbnails_witness:
  "truthy (field image_job ''fileId'') \<and> truthy (field image_job ''userId'')
   \<and> fileQueue_process env0 image_job [image_file] =
     \<lparr>settled = Inr (),
      events = [GetFile [(''_id'', JOid ''5f1e879ec7ba06511e683b22''),
                         (''userId'', JOid ''5f1e7d35c7ba06511e683b21'')],
                ImageThumbnail (JStr ''/tmp/files_manager/51997b88'') 500,
                ImageThumbnail (JStr ''/tmp/files_manager/51997b88'') 250,
                ImageThumbnail (JStr ''/tmp/files_manager/51997b88'') 100],
      suspended = [(JStr ''/tmp/files_manager/51997b88'', 500),
                   (JStr ''/tmp/files_manager/51997b88'', 250),
                   (JStr ''/tmp/files_manager/51997b88'', 100)]\<rparr>"
proof -
  have h1: "truthy (field image_job ''fileId'')" and h2: "truthy (field image_job ''userId'')"
    by (simp_all add: image_job_def field_def)
  have h3: "ObjectId env0 (field image_job ''fileId'') = Some ''5f1e879ec7ba06511e683b22''"
    and h4: "ObjectId env0 (field image_job ''userId'') = Some ''5f1e7d35c7ba06511e683b21''"
    by (simp_all add: image_job_def field_def env0_def)
  have h5: "getFile [(''_id'', JOid ''5f1e879ec7ba06511e683b22''),
                     (''userId'', JOid ''5f1e7d35c7ba06511e683b21'')] [image_file]
            = Some image_file"
    by (simp add: getFile_def findOne_def matches_def image_file_def)
  have l: "field image_file ''localPath'' = JStr ''/tmp/files_manager/51997b88''"
    by (simp add: image_file_def field_def)
  from fileQueue_settles_before_thumbnails [OF h1 h2 h3 h4 h5] h1 h2 show ?thesis
    by (simp add: l)
qed

text \<open>
  C3. For such a job, in whatever order the three suspended callbacks resume: the job
  has succeeded; a width whose derivation and write succeed leaves its thumbnail at
  \<open><localPath>_<width>\<close>; a width whose derivation or write fails leaves that path
  as it was and logs the error's message; no other path changes. In particular, when
  500 and 100 succeed and the derivation of 250 fails, the disk gains exactly the two
  artifacts for 500 and 100 and the log exactly the one error.
\<close>

theorem thumbnails_best_effort:
  assumes "truthy (field job ''fileId'')" and "truthy (field job ''userId'')"
    and "ObjectId e (field job ''fileId'') = Some fid"
    and "ObjectId e (field job ''userId'') = Some uid"
    and found: "getFile [(''_id'', JOid fid), (''userId'', JOid uid)] files = Some file"
    and lp: "localPath = field file ''localPath''"
    and sched: "mset schedule = mset (suspended (fileQueue_process e job files))"
  shows "settled (fileQueue_process e job files) = Inr ()
    \<and> (\<forall>width\<in>{500, 250, 100}.
          case imageThumbnail env localPath width of
            Inl (Error message) \<Rightarrow>
              fst (resume_all env schedule (fs, log))
                  (js_string localPath @ ''_'' @ string_of_nat width)
                = fs (js_string localPath @ ''_'' @ string_of_nat width)
              \<and> ConsoleError message \<in> set (snd (resume_all env schedule (fs, log)))
          | Inr thumbnail \<Rightarrow>
             (case writeFile_error env (js_string localPath @ ''_'' @ string_of_nat width) of
                Some (Error message) \<Rightarrow>
                  fst (resume_all env schedule (fs, log))
                      (js_string localPath @ ''_'' @ string_of_nat width)
                    = fs (js_string localPath @ ''_'' @ string_of_nat width)
                  \<and> ConsoleError message \<in> set (snd (resume_all env schedule (fs, log)))
              | None \<Rightarrow>
                  fst (resume_all env schedule (fs, log))
                      (js_string localPath @ ''_'' @ string_of_nat width)
                    = Some thumbnail))
    \<and> (\<forall>p. p \<notin> {js_string localPath @ ''_'' @ string_of_nat 500,
                 js_string localPath @ ''_'' @ string_of_nat 250,
                 js_string localPath @ ''_'' @ string_of_nat 100} \<longrightarrow>
          fst (resume_all env schedule (fs, log)) p = fs p)
    \<and> (\<forall>t500 t100 message.
          imageThumbnail env localPath 500 = Inr t500
          \<and> writeFile_error env (js_string localPath @ ''_'' @ string_of_nat 500) = None
          \<and> imageThumbnail env localPath 250 = Inl (Error message)
          \<and> imageThumbnail env localPath 100 = Inr t100
          \<and> writeFile_error env (js_string localPath @ ''_'' @ string_of_nat 100) = None \<longrightarrow>
          resume_all env schedule (fs, log)
            = (fs(js_string localPath @ ''_'' @ string_of_nat 500 \<mapsto> t500,
                  js_string localPath @ ''_'' @ string_of_nat 100 \<mapsto> t100),
               log @ [ConsoleError message]))"
proof -
  let ?P = "\<lambda>w. js_string localPath @ ''_'' @ string_of_nat w"
  let ?tasks = "[(localPath, 500), (localPath, 250), (localPath, 100 :: nat)]"
  let ?after = "resume_all env schedule (fs, log)"
  have run: "fileQueue_process e job files =
      \<lparr>settled = Inr (),
       events = [GetFile [(''_id'', JOid fid), (''userId'', JOid uid)],
                 ImageThumbnail localPath 500, ImageThumbnail localPath 250,
                 ImageThumbnail localPath 100],
       suspended = ?tasks\<rparr>"
    using fileQueue_process_validated [OF assms(1-4), of files] found
    by (simp add: getFile_def lp)
  have ok: "settled (fileQueue_process e job files) = Inr ()"
    by (simp add: run)
  have perm: "mset schedule = mset ?tasks"
    using sched by (simp add: run)
  then have tasks: "set schedule = set ?tasks"
    by (rule mset_eq_setD)
  have log_after: "snd ?after = log @ concat (map (logged env) schedule)"
    by (rule resume_all_log)
  have logged_in: "ConsoleError m \<in> set (snd ?after)"
    if "w \<in> {500, 250, 100}" and "ConsoleError m \<in> set (logged env (localPath, w))" for w m
    using that tasks by (auto simp: log_after)
  have same_path: "w' = w"
    if "w \<in> {500, 250, 100}" and "w' \<in> {500, 250, 100}" and "?P w' = ?P w" for w w' :: nat
    using that paths_of_widths [of "js_string localPath"] by auto
  have unchanged: "fst ?after (?P w) = fs (?P w)"
    if w: "w \<in> {500, 250, 100}" and none: "written env (localPath, w) = None" for w
  proof (rule resume_all_untouched)
    fix task t
    assume "task \<in> set schedule"
    then obtain w' where task: "task = (localPath, w')" and w': "w' \<in> {500, 250, 100}"
      using tasks by auto
    show "written env task \<noteq> Some (?P w, t)"
    proof
      assume "written env task = Some (?P w, t)"
      then have "?P w' = ?P w" and "written env (localPath, w') = Some (?P w, t)"
        by (simp_all add: task written_Some)
      with same_path [OF w w'] none show False by simp
    qed
  qed
  have produced: "fst ?after (?P w) = Some t"
    if w: "w \<in> {500, 250, 100}" and some: "written env (localPath, w) = Some (?P w, t)" for w t
  proof (rule resume_all_written [OF _ some])
    show "(localPath, w) \<in> set schedule"
      using w tasks by auto
  next
    fix task' t'
    assume "task' \<in> set schedule"
    then obtain w' where task: "task' = (localPath, w')" and w': "w' \<in> {500, 250, 100}"
      using tasks by auto
    assume "written env task' = Some (?P w, t')"
    then have "?P w' = ?P w" and eq: "written env (localPath, w') = Some (?P w, t')"
      by (simp_all add: task written_Some)
    with same_path [OF w w'] have "w' = w" by simp
    with eq some show "t' = t" by simp
  qed
  have other: "fst ?after p = fs p" if "p \<notin> {?P 500, ?P 250, ?P 100}" for p
  proof (rule resume_all_untouched)
    fix task t
    assume "task \<in> set schedule"
    then obtain w' where task: "task = (localPath, w')" and w': "w' \<in> {500, 250, 100}"
      using tasks by auto
    with that show "written env task \<noteq> Some (p, t)"
      by (auto simp: written_Some)
  qed
  have each: "case imageThumbnail env localPath w of
            Inl (Error message) \<Rightarrow>
              fst ?after (?P w) = fs (?P w) \<and> ConsoleError message \<in> set (snd ?after)
          | Inr thumbnail \<Rightarrow>
             (case writeFile_error env (?P w) of
                Some (Error message) \<Rightarrow>
                  fst ?after (?P w) = fs (?P w) \<and> ConsoleError message \<in> set (snd ?after)
              | None \<Rightarrow> fst ?after (?P w) = Some thumbnail)"
    if w: "w \<in> {500, 250, 100}" for w
  proof (cases "imageThumbnail env localPath w")
    case (Inl err)
    obtain m where err: "err = Error m" by (cases err)
    have "written env (localPath, w) = None" and "ConsoleError m \<in> set (logged env (localPath, w))"
      by (simp_all add: written_def logged_def Inl err)
    with unchanged [OF w] logged_in [OF w] Inl err show ?thesis by simp
  next
    case (Inr thumbnail)
    show ?thesis
    proof (cases "writeFile_error env (?P w)")
      case None
      with Inr have "written env (localPath, w) = Some (?P w, thumbnail)"
        by (simp add: written_Some)
      with produced [OF w] Inr None show ?thesis by simp
    next
      case (Some err)
      obtain m where err: "err = Error m" by (cases err)
      have "written env (localPath, w) = None"
        and "ConsoleError m \<in> set (logged env (localPath, w))"
        using Inr Some err by (simp_all add: written_def logged_def)
      with unchanged [OF w] logged_in [OF w] Inr Some err show ?thesis by simp
    qed
  qed
  have particular: "?after = (fs(?P 500 \<mapsto> t500, ?P 100 \<mapsto> t100), log @ [ConsoleError m])"
    if a: "imageThumbnail env localPath 500 = Inr t500" "writeFile_error env (?P 500) = None"
      and b: "imageThumbnail env localPath 250 = Inl (Error m)"
      and c: "imageThumbnail env localPath 100 = Inr t100" "writeFile_error env (?P 100) = None"
    for t500 t100 m
  proof -
    have w500: "written env (localPath, 500) = Some (?P 500, t500)"
      and w100: "written env (localPath, 100) = Some (?P 100, t100)"
      and w250: "written env (localPath, 250) = None"
      using a b c by (simp_all add: written_Some) (simp add: written_def)
    have "fst ?after p = (fs(?P 500 \<mapsto> t500, ?P 100 \<mapsto> t100)) p" for p
    proof (cases "p \<in> {?P 500, ?P 250, ?P 100}")
      case False
      with other [of p] show ?thesis by simp
    next
      case True
      with produced [OF _ w500] produced [OF _ w100] unchanged [OF _ w250]
        paths_of_widths [of "js_string localPath"]
      show ?thesis by auto
    qed
    then have f: "fst ?after = fs(?P 500 \<mapsto> t500, ?P 100 \<mapsto> t100)" by (rule ext)
    have "mset (concat (map (logged env) schedule)) = mset (concat (map (logged env) ?tasks))"
      using perm by (rule concat_logged_perm)
    also have "\<dots> = {#ConsoleError m#}"
      using a b c by (simp add: logged_def)
    finally have "concat (map (logged env) schedule) = [ConsoleError m]" by simp
    then have l: "snd ?after = log @ [ConsoleError m]" by (simp add: log_after)
    from f l show ?thesis by (simp add: prod_eq_iff)
  qed
  from ok each other particular show ?thesis by blast
qed

theorem thumbnails_best_effort_witness:
  "settled (fileQueue_process env0 image_job [image_file]) = Inr ()
   \<and> mset [(JStr ''/tmp/files_manager/51997b88'', 100), (JStr ''/tmp/files_manager/51997b88'', 500),
            (JStr ''/tmp/files_manager/51997b88'', 250)]
       = mset (suspended (fileQueue_process env0 image_job [image_file]))
   \<and> resume_all io0 [(JStr ''/tmp/files_manager/51997b88'', 100),
                      (JStr ''/tmp/files_manager/51997b88'', 500),
                      (JStr ''/tmp/files_manager/51997b88'', 250)] (Map.empty, [])
       = ([''/tmp/files_manager/51997b88_500'' \<mapsto> ''thumbnail-500'',
           ''/tmp/files_manager/51997b88_100'' \<mapsto> ''thumbnail-100''],
          [ConsoleError ''Input file contains unsupported image format''])"
proof -
  have h1: "truthy (field image_job ''fileId'')" and h2: "truthy (field image_job ''userId'')"
    by (simp_all add: image_job_def field_def)
  have h3: "ObjectId env0 (field image_job ''fileId'') = Some ''5f1e879ec7ba06511e683b22''"
    and h4: "ObjectId env0 (field image_job ''userId'') = Some ''5f1e7d35c7ba06511e683b21''"
    by (simp_all add: image_job_def field_def env0_def)
  have h5: "getFile [(''_id'', JOid ''5f1e879ec7ba06511e683b22''),
                     (''userId'', JOid ''5f1e7d35c7ba06511e683b21'')] [image_file]
            = Some image_file"
    by (simp add: getFile_def findOne_def matches_def image_file_def)
  have h6: "JStr ''/tmp/files_manager/51997b88'' = field image_file ''localPath''"
    by (simp add: image_file_def field_def)
  have h7: "mset [(JStr ''/tmp/files_manager/51997b88'', 100),
                  (JStr ''/tmp/files_manager/51997b88'', 500),
                  (JStr ''/tmp/files_manager/51997b88'', 250)]
            = mset (suspended (fileQueue_process env0 image_job [image_file]))"
    by (simp add: image_job_run)
  note t = thumbnails_best_effort [where env = io0 and fs = Map.empty and log = "[]",
      OF h1 h2 h3 h4 h5 h6 h7]
  have r: "resume_all io0 [(JStr ''/tmp/files_manager/51997b88'', 100),
                      (JStr ''/tmp/files_manager/51997b88'', 500),
                      (JStr ''/tmp/files_manager/51997b88'', 250)] (Map.empty, [])
       = ([''/tmp/files_manager/51997b88_500'' \<mapsto> ''thumbnail-500'',
           ''/tmp/files_manager/51997b88_100'' \<mapsto> ''thumbnail-100''],
          [ConsoleError ''Input file contains unsupported image format''])"
    using t by (simp add: io0_def digits_of_widths)
  from t h7 r show ?thesis by blast
qed

section \<open>Writes to the session store are not awaited\<close>

text \<open>
  C10. \<open>set\<close> and \<open>del\<close> return normally in every state of the store, with their
  command handed over and not yet executed: the server's data are as before. While
  the connection is down the data stay as they were and the command stays pending. A
  \<open>SETEX\<close> the server refuses (a time to live of zero) stores nothing, and \<open>set\<close>
  has returned normally all the same. So \<open>getConnect\<close>, which awaits \<open>set\<close>,
  answers 200 with the token while the key is not yet written, on a connection that is
  up and on one that is down.
\<close>

theorem set_del_do_not_await:
  "fst (RedisClient_set key val duration r) = Inr ()
   \<and> kv (snd (RedisClient_set key val duration r)) = kv r
   \<and> pending (snd (RedisClient_set key val duration r)) = pending r @ [SETEX key duration val]
   \<and> fst (RedisClient_del key r) = Inr ()
   \<and> kv (snd (RedisClient_del key r)) = kv r
   \<and> pending (snd (RedisClient_del key r)) = pending r @ [DEL key]
   \<and> (\<not> connected r \<longrightarrow>
        kv (server_run (snd (RedisClient_set key val duration r))) = kv r
      \<and> kv (server_run (snd (RedisClient_del key r))) = kv r
      \<and> pending (server_run (snd (RedisClient_set key val duration r)))
          = pending r @ [SETEX key duration val]
      \<and> pending (server_run (snd (RedisClient_del key r))) = pending r @ [DEL key])
   \<and> (connected r \<longrightarrow>
        fst (RedisClient_set key val 0 r) = Inr ()
      \<and> kv (server_run (snd (RedisClient_set key val 0 r))) = kv (server_run r))
   \<and> (js_index (split_on CHR '' '' (case hdr of None \<Rightarrow> [] | Some h \<Rightarrow> h)) 1 = Some credentials
      \<and> credentials \<noteq> []
      \<and> split_on CHR '':'' (base64_decode e credentials) = email # password # rest
      \<and> email \<noteq> [] \<and> password \<noteq> []
      \<and> getUser [(''email'', JStr email), (''password'', JStr (sha1 e (JStr password)))] users
           = Some user
      \<and> toString (field user ''_id'') = Some uid \<longrightarrow>
        fst (getConnect e uuid hdr users r) = Inr (send 200 [(''token'', JStr uuid)])
      \<and> kv (snd (getConnect e uuid hdr users r)) = kv r
      \<and> (\<not> connected r \<longrightarrow> kv (server_run (snd (getConnect e uuid hdr users r))) = kv r))"
proof -
  have a: "fst (RedisClient_set key val duration r) = Inr ()
   \<and> kv (snd (RedisClient_set key val duration r)) = kv r
   \<and> pending (snd (RedisClient_set key val duration r)) = pending r @ [SETEX key duration val]
   \<and> fst (RedisClient_del key r) = Inr ()
   \<and> kv (snd (RedisClient_del key r)) = kv r
   \<and> pending (snd (RedisClient_del key r)) = pending r @ [DEL key]"
    by (simp add: RedisClient_set_def RedisClient_del_def)
  have b: "kv (server_run (snd (RedisClient_set key val duration r))) = kv r
      \<and> kv (server_run (snd (RedisClient_del key r))) = kv r
      \<and> pending (server_run (snd (RedisClient_set key val duration r)))
          = pending r @ [SETEX key duration val]
      \<and> pending (server_run (snd (RedisClient_del key r))) = pending r @ [DEL key]"
    if "\<not> connected r"
    using that by (simp add: RedisClient_set_def RedisClient_del_def server_run_def)
  have z: "fst (RedisClient_set key val 0 r) = Inr ()
      \<and> kv (server_run (snd (RedisClient_set key val 0 r))) = kv (server_run r)"
    if "connected r"
    using that by (simp add: RedisClient_set_def server_run_def)
  have c: "fst (getConnect e uuid hdr users r) = Inr (send 200 [(''token'', JStr uuid)])
      \<and> kv (snd (getConnect e uuid hdr users r)) = kv r
      \<and> (\<not> connected r \<longrightarrow> kv (server_run (snd (getConnect e uuid hdr users r))) = kv r)"
    if h: "js_index (split_on CHR '' '' (case hdr of None \<Rightarrow> [] | Some h \<Rightarrow> h)) 1
             = Some credentials"
      "credentials \<noteq> []"
      "split_on CHR '':'' (base64_decode e credentials) = email # password # rest"
      "email \<noteq> []" "password \<noteq> []"
      and u: "getUser [(''email'', JStr email),
                       (''password'', JStr (sha1 e (JStr password)))] users = Some user"
        "toString (field user ''_id'') = Some uid"
    using getConnect_decoded [OF h, of uuid users r] u by (simp add: server_run_def)
  from a b z c show ?thesis by blast
qed

theorem set_del_do_not_await_witness:
  "\<not> connected redis_down
   \<and> fst (RedisClient_set ''auth_031bffac-3edc-4e51-aaae-1c121317da8a''
            ''5f1e7d35c7ba06511e683b21'' 86400 redis_down) = Inr ()
   \<and> server_run (snd (RedisClient_set ''auth_031bffac-3edc-4e51-aaae-1c121317da8a''
            ''5f1e7d35c7ba06511e683b21'' 86400 redis_down))
       = redis_down\<lparr>pending := [SETEX ''auth_031bffac-3edc-4e51-aaae-1c121317da8a'' 86400
                                    ''5f1e7d35c7ba06511e683b21'']\<rparr>
   \<and> connected redis0
   \<and> fst (RedisClient_set ''auth_031bffac-3edc-4e51-aaae-1c121317da8a''
            ''5f1e7d35c7ba06511e683b21'' 0 redis0) = Inr ()
   \<and> kv (server_run (snd (RedisClient_set ''auth_031bffac-3edc-4e51-aaae-1c121317da8a''
            ''5f1e7d35c7ba06511e683b21'' 0 redis0))) = Map.empty
   \<and> fst (getConnect env0 ''031bffac-3edc-4e51-aaae-1c121317da8a''
            (Some ''Basic Ym9iQGR5bGFuLmNvbTp0b3RvMTIzNCE='') [bob] redis_down)
       = Inr (send 200 [(''token'', JStr ''031bffac-3edc-4e51-aaae-1c121317da8a'')])
   \<and> kv (snd (getConnect env0 ''031bffac-3edc-4e51-aaae-1c121317da8a''
            (Some ''Basic Ym9iQGR5bGFuLmNvbTp0b3RvMTIzNCE='') [bob] redis_down)) = Map.empty
   \<and> pending (server_run (snd (getConnect env0 ''031bffac-3edc-4e51-aaae-1c121317da8a''
            (Some ''Basic Ym9iQGR5bGFuLmNvbTp0b3RvMTIzNCE='') [bob] redis_down)))
       = [SETEX ''auth_031bffac-3edc-4e51-aaae-1c121317da8a'' 86400 ''5f1e7d35c7ba06511e683b21'']"
proof -
  have d: "\<not> connected redis_down" and k: "kv redis_down = Map.empty"
    and p: "pending redis_down = []"
    by (simp_all add: redis_down_def)
  have u: "connected redis0" and k0: "kv (server_run redis0) = Map.empty"
    by (simp_all add: redis0_def server_run_def)
  have h: "js_index (split_on CHR '' '' (case Some ''Basic Ym9iQGR5bGFuLmNvbTp0b3RvMTIzNCE='' of
              None \<Rightarrow> [] | Some h \<Rightarrow> h)) 1 = Some ''Ym9iQGR5bGFuLmNvbTp0b3RvMTIzNCE=''
      \<and> ''Ym9iQGR5bGFuLmNvbTp0b3RvMTIzNCE='' \<noteq> []
      \<and> split_on CHR '':'' (base64_decode env0 ''Ym9iQGR5bGFuLmNvbTp0b3RvMTIzNCE='')
            = ''bob@dylan.com'' # ''toto1234!'' # []
      \<and> ''bob@dylan.com'' \<noteq> [] \<and> ''toto1234!'' \<noteq> []
      \<and> getUser [(''email'', JStr ''bob@dylan.com''),
                  (''password'', JStr (sha1 env0 (JStr ''toto1234!'')))] [bob] = Some bob
      \<and> toString (field bob ''_id'') = Some ''5f1e7d35c7ba06511e683b21''"
    by (simp add: js_index_def env0_def getUser_def findOne_def matches_def bob_def field_def)
  note t = set_del_do_not_await [where r = redis_down
      and key = "''auth_031bffac-3edc-4e51-aaae-1c121317da8a''"
      and val = "''5f1e7d35c7ba06511e683b21''" and duration = 86400
      and hdr = "Some ''Basic Ym9iQGR5bGFuLmNvbTp0b3RvMTIzNCE=''"
      and credentials = "''Ym9iQGR5bGFuLmNvbTp0b3RvMTIzNCE=''"
      and e = env0 and email = "''bob@dylan.com''" and password = "''toto1234!''"
      and rest = "[]" and users = "[bob]" and user = bob
      and uid = "''5f1e7d35c7ba06511e683b21''"
      and uuid = "''031bffac-3edc-4e51-aaae-1c121317da8a''"]
  note t0 = set_del_do_not_await [where r = redis0
      and key = "''auth_031bffac-3edc-4e51-aaae-1c121317da8a''"
      and val = "''5f1e7d35c7ba06511e683b21''"]
  have s: "server_run (snd (RedisClient_set ''auth_031bffac-3edc-4e51-aaae-1c121317da8a''
            ''5f1e7d35c7ba06511e683b21'' 86400 redis_down))
       = redis_down\<lparr>pending := [SETEX ''auth_031bffac-3edc-4e51-aaae-1c121317da8a'' 86400
                                    ''5f1e7d35c7ba06511e683b21'']\<rparr>"
    by (simp add: RedisClient_set_def server_run_def redis_down_def)
  have z: "fst (RedisClient_set ''auth_031bffac-3edc-4e51-aaae-1c121317da8a''
            ''5f1e7d35c7ba06511e683b21'' 0 redis0) = Inr ()
      \<and> kv (server_run (snd (RedisClient_set ''auth_031bffac-3edc-4e51-aaae-1c121317da8a''
            ''5f1e7d35c7ba06511e683b21'' 0 redis0))) = Map.empty"
    using t0 u k0 by simp
  have g: "pending (server_run (snd (getConnect env0 ''031bffac-3edc-4e51-aaae-1c121317da8a''
            (Some ''Basic Ym9iQGR5bGFuLmNvbTp0b3RvMTIzNCE='') [bob] redis_down)))
       = [SETEX ''auth_031bffac-3edc-4e51-aaae-1c121317da8a'' 86400 ''5f1e7d35c7ba06511e683b21'']"
    using getConnect_decoded [where e = env0 and uuid = "''031bffac-3edc-4e51-aaae-1c121317da8a''"
      and users = "[bob]" and r = redis_down
      and hdr = "Some ''Basic Ym9iQGR5bGFuLmNvbTp0b3RvMTIzNCE=''"
      and credentials = "''Ym9iQGR5bGFuLmNvbTp0b3RvMTIzNCE=''"
      and email = "''bob@dylan.com''" and password = "''toto1234!''" and rest = "[]"] h
    by (simp add: server_run_def redis_down_def auth_key_def)
  from d k h t s z u g show ?thesis by simp
qed

end
